theory Spec2Isabelle
  imports Main "HOL-Library.Char_ord" "HOL-Library.List_Lexorder"
begin

section \<open>Python primitives used by dnscompare.py\<close>

text \<open>
  A Python \<open>str\<close> is modelled as a \<open>string\<close> whose characters are code points below 256;
  the input files of the tool (domain names and record types) are ASCII.
  What the program does besides computing values is written out: every call of
  \<open>exit(msg)\<close> and every exception that no handler catches is a value of \<open>failure\<close>,
  and every effect on the outside world is an \<open>event\<close> appended to a trace:
  \<open>Print s\<close> is a call \<open>print(s)\<close>, \<open>Query ns d r\<close> a call of \<open>resolver.query(d, r)\<close> with
  the resolver set to the nameserver \<open>ns\<close>, \<open>ParseIP s\<close> a call of \<open>ip_address(s)\<close> and
  \<open>OpenFile p\<close> a call of \<open>open(p)\<close>.
\<close>

datatype py_exception = IndexError | IOError | ResolverError

datatype failure = SystemExit string | Uncaught py_exception

datatype event =
    Print string
  | Query string string string
  | ParseIP string
  | OpenFile string

type_synonym trace = "event list"

definition nl :: string where
  "nl = [CHR 0x0A]"

definition apostrophe :: char where
  "apostrophe = CHR 0x27"

subsection \<open>colorama\<close>

text \<open>The ANSI escape sequences that colorama binds to \<open>Fore.RED\<close>, \<open>Fore.GREEN\<close>
  and \<open>Fore.YELLOW\<close>: ESC, an opening bracket, the colour number and the letter m.\<close>

definition Fore_RED :: string where
  "Fore_RED = CHR 0x1B # ''[31m''"

definition Fore_GREEN :: string where
  "Fore_GREEN = CHR 0x1B # ''[32m''"

definition Fore_YELLOW :: string where
  "Fore_YELLOW = CHR 0x1B # ''[33m''"

subsection \<open>str.format, str.join, str.startswith, str.split, str.strip\<close>

text \<open>A format string with numbered replacement fields is a list of pieces: literal text
  and the fields \<open>{i}\<close>. \<open>str.format\<close> raises IndexError at a field whose number is not
  below the number of positional arguments.\<close>

datatype piece = Lit string | Arg nat

fun py_format :: "piece list \<Rightarrow> string list \<Rightarrow> py_exception + string" where
  "py_format [] args = Inr []"
| "py_format (Lit s # ps) args =
     (case py_format ps args of Inl e \<Rightarrow> Inl e | Inr r \<Rightarrow> Inr (s @ r))"
| "py_format (Arg i # ps) args =
     (if i < length args
      then (case py_format ps args of Inl e \<Rightarrow> Inl e | Inr r \<Rightarrow> Inr (args ! i @ r))
      else Inl IndexError)"

fun join :: "string \<Rightarrow> string list \<Rightarrow> string" where
  "join sep [] = []"
| "join sep [x] = x"
| "join sep (x # y # ys) = x @ sep @ join sep (y # ys)"

fun startswith :: "string \<Rightarrow> string \<Rightarrow> bool" where
  "startswith s [] = True"
| "startswith [] (p # ps) = False"
| "startswith (c # cs) (p # ps) = (c = p \<and> startswith cs ps)"

text \<open>\<open>s.split(c)\<close> for a separator of one character: one field more than there are
  separators, the empty string giving one empty field.\<close>

fun split :: "char \<Rightarrow> string \<Rightarrow> string list" where
  "split c [] = [[]]"
| "split c (x # xs) =
     (if x = c then [] # split c xs
      else (case split c xs of [] \<Rightarrow> [[x]] | f # fs \<Rightarrow> (x # f) # fs))"

text \<open>The code points below 256 that \<open>str.strip()\<close> removes: tab, line feed, vertical tab,
  form feed, carriage return, the separators 0x1C to 0x1F, space, NEL and the no-break
  space.\<close>

definition isspace :: "char \<Rightarrow> bool" where
  "isspace c = (of_char c \<in> set [9, 10, 11, 12, 13, 28, 29, 30, 31, 32, 133, 160 :: nat])"

definition strip :: "string \<Rightarrow> string" where
  "strip s = rev (dropWhile isspace (rev (dropWhile isspace s)))"

section \<open>The comparator\<close>

text \<open>A response is a list whose elements are strings or \<open>None\<close>. The generator
  \<open>(i for i in response if i)\<close> keeps the elements that are truthy: it drops \<open>None\<close>
  and the empty string.\<close>

type_synonym response = "string option list"

fun truthy :: "response \<Rightarrow> string list" where
  "truthy [] = []"
| "truthy (None # xs) = truthy xs"
| "truthy (Some s # xs) = (if s = [] then truthy xs else s # truthy xs)"

definition warning_format :: "piece list" where
  "warning_format =
     [Arg 0,
      Lit ''Warning! At least 1 response was None, which means we were unable to get '',
      Lit ''any type of response. This could have happened because of an error.'', Lit nl,
      Lit ''Please manually verify the check for: '', Arg 1, Lit '' - '', Arg 2,
      Lit '' record.'', Lit nl,
      Lit ''Primary NS: '', Arg 3, Lit nl, Lit ''Secondary NS: '', Arg 4, Lit nl]"

definition success_format :: "piece list" where
  "success_format =
     [Arg 0, Lit ''Success! '', Arg 1, Lit '' - '', Arg 2, Lit '' record.'', Lit nl,
      Lit ''Response:'', Lit nl, Arg 3, Lit nl]"

definition error_format :: "piece list" where
  "error_format =
     [Arg 0, Lit ''Error! Difference in DNS responses for '', Arg 1, Lit '' - '', Arg 2,
      Lit '' record.'', Lit nl,
      Lit ''Primary NS: '', Arg 3, Lit nl, Lit ''Secondary NS: '', Arg 4, Lit nl]"

definition compare_dns_response ::
  "string \<Rightarrow> string \<Rightarrow> response \<Rightarrow> response \<Rightarrow> py_exception + string" where
  "compare_dns_response domain record_type primary_response secondary_response =
     (if None \<in> set primary_response \<or> None \<in> set secondary_response then
        py_format warning_format
          [Fore_YELLOW, domain, record_type,
           join nl (truthy primary_response), join nl (truthy secondary_response)]
      else if primary_response = secondary_response then
        py_format success_format
          [Fore_GREEN, domain, record_type, join nl (truthy primary_response)]
      else
        py_format error_format
          [Fore_RED, domain, record_type,
           join nl (truthy primary_response), join nl (truthy secondary_response)])"

text \<open>The three outcomes of a comparison. The program has no type for them: the outcome
  of a message is the colour it starts with, which is also how the driver reads it
  (\<open>result.startswith(Fore.GREEN)\<close>).\<close>

datatype outcome = Success | Warning | Error

definition outcome_of :: "string \<Rightarrow> outcome option" where
  "outcome_of msg =
     (if startswith msg Fore_YELLOW then Some Warning
      else if startswith msg Fore_GREEN then Some Success
      else if startswith msg Fore_RED then Some Error
      else None)"

section \<open>The resolver adapter\<close>

text \<open>What \<open>resolver.query(domain, record_type)\<close> does at a nameserver is outside the
  program: the rdata of an answer (each as its \<open>to_text()\<close>), one of the five exceptions
  that \<open>dns_query\<close> handles, or any other exception (NXDOMAIN for one), which no handler
  catches. The resolver is a parameter; its answer may depend on how many queries were
  sent before.\<close>

datatype answer =
    Records "string list"
  | NoAnswer
  | NoNameservers
  | NoMetaqueries
  | UnknownRdatatype
  | Timeout
  | OtherException

type_synonym resolver = "nat \<Rightarrow> string \<Rightarrow> string \<Rightarrow> string \<Rightarrow> answer"

definition no_metaqueries_format :: "piece list" where
  "no_metaqueries_format =
     [Arg 0, Lit ''You used an invalid query type. Probably ANY, '',
      Lit ''which is not supported. Exiting.'', Lit nl]"

definition unknown_rdatatype_format :: "piece list" where
  "unknown_rdatatype_format =
     [Arg 0, Arg 1, Lit '' contains invalid DNS record type: '', Arg 2, Lit nl,
      Lit ''Exiting.'']"

definition timeout_format :: "piece list" where
  "timeout_format =
     [Arg 0, Arg 1, Lit ''Error! Timeout while querying the '', Arg 2,
      Lit '' record of '', Arg 3, Lit '' at nameserver '', Arg 4]"

definition count_queries :: "trace \<Rightarrow> nat" where
  "count_queries t = length (filter (\<lambda>e. case e of Query n d r \<Rightarrow> True | _ \<Rightarrow> False) t)"

definition exit_with :: "py_exception + string \<Rightarrow> failure" where
  "exit_with m = (case m of Inl e \<Rightarrow> Uncaught e | Inr msg \<Rightarrow> SystemExit msg)"

definition dns_query ::
  "resolver \<Rightarrow> string \<Rightarrow> string \<Rightarrow> string \<Rightarrow> trace \<Rightarrow> trace \<times> (failure + response)" where
  "dns_query rsv nameserver domain record_type t =
     (let t1 = t @ [Query nameserver domain record_type] in
      case rsv (count_queries t) nameserver domain record_type of
        Records rdata \<Rightarrow> (t1, Inr (map Some (sort rdata)))
      | NoAnswer \<Rightarrow> (t1, Inr [Some [apostrophe, apostrophe]])
      | NoNameservers \<Rightarrow> (t1, Inr [Some [apostrophe, apostrophe]])
      | NoMetaqueries \<Rightarrow>
          (t1, Inl (exit_with (py_format no_metaqueries_format [Fore_RED])))
      | UnknownRdatatype \<Rightarrow>
          (t1, Inl (exit_with
             (py_format unknown_rdatatype_format [Fore_RED, domain, record_type])))
      | Timeout \<Rightarrow>
          (case py_format timeout_format [Fore_RED, record_type, domain, nameserver] of
             Inl e \<Rightarrow> (t1, Inl (Uncaught e))
           | Inr msg \<Rightarrow> (t1 @ [Print msg], Inr [None]))
      | OtherException \<Rightarrow> (t1, Inl (Uncaught ResolverError)))"

section \<open>The line parser\<close>

text \<open>The dictionary that \<open>get_line_data\<close> returns has exactly the keys \<open>'domain'\<close> and
  \<open>'records'\<close>. \<open>l[0]\<close> always exists; \<open>l[1]\<close> raises IndexError when the line has no
  space, and the handler exits with the message that shows the line.\<close>

record line_data =
  domain :: string
  records :: "string list"

definition parse_error_format :: "piece list" where
  "parse_error_format =
     [Arg 0, Lit ''Something went wrong while parsing the input_file.'', Lit nl,
      Lit ''The line said: '', Arg 1, Lit nl, Lit ''Exiting.'', Lit nl]"

definition get_line_data :: "string \<Rightarrow> failure + line_data" where
  "get_line_data line =
     (let l = split CHR '' '' line in
      if 1 < length l
      then Inr \<lparr>domain = l ! 0, records = split CHR '','' (l ! 1)\<rparr>
      else Inl (exit_with (py_format parse_error_format [Fore_RED, line])))"

text \<open>The file is the list of its raw lines, each with its line terminator.\<close>

definition valid_lines :: "string list \<Rightarrow> string list" where
  "valid_lines input_file =
     filter (\<lambda>l. l \<noteq> [] \<and> \<not> startswith l ''#'') (map strip input_file)"

section \<open>The driver\<close>

text \<open>The first loop of \<open>parse_data\<close>: every retained line is parsed and appended to
  \<open>data\<close>; the first line that fails ends the run.\<close>

fun parse_lines :: "string list \<Rightarrow> failure + line_data list" where
  "parse_lines [] = Inr []"
| "parse_lines (line # rest) =
     (case get_line_data line of
        Inl f \<Rightarrow> Inl f
      | Inr d \<Rightarrow> (case parse_lines rest of Inl f \<Rightarrow> Inl f | Inr data \<Rightarrow> Inr (d # data)))"

text \<open>Lines 50 to 52: a message is printed unless it starts with green and quiet mode is
  on.\<close>

definition report :: "bool \<Rightarrow> string \<Rightarrow> trace \<Rightarrow> trace" where
  "report quiet_mode result t =
     (if startswith result Fore_GREEN \<and> quiet_mode then t else t @ [Print result])"

text \<open>Lines 48 to 52: the two responses are compared and the message is reported.\<close>

definition compare_and_report ::
  "bool \<Rightarrow> string \<Rightarrow> string \<Rightarrow> response \<Rightarrow> response \<Rightarrow> trace
     \<Rightarrow> trace \<times> (failure + unit)" where
  "compare_and_report quiet_mode d record_type primary_response secondary_response t =
     (case compare_dns_response d record_type primary_response secondary_response of
        Inl e \<Rightarrow> (t, Inl (Uncaught e))
      | Inr result \<Rightarrow> (report quiet_mode result t, Inr ()))"

text \<open>The body of the inner loop, lines 46 to 52, for one record type of one line.\<close>

definition query_record ::
  "resolver \<Rightarrow> bool \<Rightarrow> string \<Rightarrow> string \<Rightarrow> string \<Rightarrow> string \<Rightarrow> trace
     \<Rightarrow> trace \<times> (failure + unit)" where
  "query_record rsv quiet_mode primary_ns secondary_ns d record_type t =
     (case dns_query rsv primary_ns d record_type t of
        (t1, Inl f) \<Rightarrow> (t1, Inl f)
      | (t1, Inr primary_response) \<Rightarrow>
          (case dns_query rsv secondary_ns d record_type t1 of
             (t2, Inl f) \<Rightarrow> (t2, Inl f)
           | (t2, Inr secondary_response) \<Rightarrow>
               compare_and_report quiet_mode d record_type primary_response
                 secondary_response t2))"

fun query_records ::
  "resolver \<Rightarrow> bool \<Rightarrow> string \<Rightarrow> string \<Rightarrow> string \<Rightarrow> string list \<Rightarrow> trace
     \<Rightarrow> trace \<times> (failure + unit)" where
  "query_records rsv quiet_mode primary_ns secondary_ns d [] t = (t, Inr ())"
| "query_records rsv quiet_mode primary_ns secondary_ns d (record_type # rest) t =
     (case query_record rsv quiet_mode primary_ns secondary_ns d record_type t of
        (t1, Inl f) \<Rightarrow> (t1, Inl f)
      | (t1, Inr u) \<Rightarrow> query_records rsv quiet_mode primary_ns secondary_ns d rest t1)"

fun query_lines ::
  "resolver \<Rightarrow> bool \<Rightarrow> string \<Rightarrow> string \<Rightarrow> line_data list \<Rightarrow> trace
     \<Rightarrow> trace \<times> (failure + unit)" where
  "query_lines rsv quiet_mode primary_ns secondary_ns [] t = (t, Inr ())"
| "query_lines rsv quiet_mode primary_ns secondary_ns (line # rest) t =
     (case query_records rsv quiet_mode primary_ns secondary_ns
             (domain line) (records line) t of
        (t1, Inl f) \<Rightarrow> (t1, Inl f)
      | (t1, Inr u) \<Rightarrow> query_lines rsv quiet_mode primary_ns secondary_ns rest t1)"

text \<open>The file system is a parameter: the raw lines of a path, or \<open>None\<close> where \<open>open\<close>
  raises IOError.\<close>

type_synonym filesystem = "string \<Rightarrow> string list option"

definition parse_data ::
  "filesystem \<Rightarrow> resolver \<Rightarrow> string \<Rightarrow> string \<Rightarrow> string \<Rightarrow> bool \<Rightarrow> trace
     \<Rightarrow> trace \<times> (failure + unit)" where
  "parse_data fs rsv primary_ns secondary_ns input_file quiet_mode t =
     (let t1 = t @ [OpenFile input_file] in
      case fs input_file of
        None \<Rightarrow> (t1, Inl (Uncaught IOError))
      | Some f \<Rightarrow>
          (case parse_lines (valid_lines f) of
             Inl e \<Rightarrow> (t1, Inl e)
           | Inr data \<Rightarrow> query_lines rsv quiet_mode primary_ns secondary_ns data t1))"

section \<open>The input validator\<close>

text \<open>\<open>ipaddress.ip_address\<close> is a parameter: the predicate is true of the strings it
  parses and false of those where it raises ValueError.\<close>

definition valid_ip :: "(string \<Rightarrow> bool) \<Rightarrow> string \<Rightarrow> trace \<Rightarrow> trace \<times> bool" where
  "valid_ip ip_address ip t = (t @ [ParseIP ip], ip_address ip)"

definition accessible_file :: "filesystem \<Rightarrow> string \<Rightarrow> trace \<Rightarrow> trace \<times> bool" where
  "accessible_file fs input_file t = (t @ [OpenFile input_file], fs input_file \<noteq> None)"

definition validate ::
  "(string \<Rightarrow> bool) \<Rightarrow> filesystem \<Rightarrow> string \<Rightarrow> string \<Rightarrow> string \<Rightarrow> trace
     \<Rightarrow> trace \<times> (failure + bool)" where
  "validate ip_address fs primary_ns secondary_ns input_file t =
     (case valid_ip ip_address primary_ns t of
        (t1, ok1) \<Rightarrow>
          if \<not> ok1 then (t1, Inl (SystemExit ''Invalid IP for primary nameserver (-p flag)''))
          else (case valid_ip ip_address secondary_ns t1 of
            (t2, ok2) \<Rightarrow>
              if \<not> ok2
              then (t2, Inl (SystemExit ''Invalid IP for secondary nameserver (-s flag)''))
              else (case accessible_file fs input_file t2 of
                (t3, ok3) \<Rightarrow>
                  if \<not> ok3
                  then (t3, Inl (SystemExit ''Unable to access input file (-f flag)''))
                  else (t3, Inr True))))"

definition main ::
  "(string \<Rightarrow> bool) \<Rightarrow> filesystem \<Rightarrow> resolver \<Rightarrow> string \<Rightarrow> string \<Rightarrow> string \<Rightarrow> bool
     \<Rightarrow> trace \<times> (failure + unit)" where
  "main ip_address fs rsv primary_ns secondary_ns input_file quiet_mode =
     (case validate ip_address fs primary_ns secondary_ns input_file [] of
        (t1, Inl f) \<Rightarrow> (t1, Inl f)
      | (t1, Inr ok) \<Rightarrow>
          parse_data fs rsv primary_ns secondary_ns input_file quiet_mode t1)"

section \<open>Derived notions used to state the properties\<close>

text \<open>The classification that the comparator gives a pair of responses: the outcome of
  the message it returns.\<close>

definition classify :: "string \<Rightarrow> string \<Rightarrow> response \<Rightarrow> response \<Rightarrow> outcome option" where
  "classify d record_type primary_response secondary_response =
     (case compare_dns_response d record_type primary_response secondary_response of
        Inl e \<Rightarrow> None
      | Inr msg \<Rightarrow> outcome_of msg)"

text \<open>Concrete surroundings for the examples: a resolver at which every query times
  out, one that never has an answer, a file system whose every path holds the single line
  \<open>example.org A\<close>, and an address parser that accepts every string.\<close>

definition timeout_resolver :: resolver where
  "timeout_resolver n nameserver d record_type = Timeout"

definition no_answer_resolver :: resolver where
  "no_answer_resolver n nameserver d record_type = NoAnswer"

definition example_fs :: filesystem where
  "example_fs path = Some [''example.org A'' @ nl]"

definition any_ip :: "string \<Rightarrow> bool" where
  "any_ip ip = True"

text \<open>The two parts of a line around its first space.\<close>

definition before_first_space :: "string \<Rightarrow> string" where
  "before_first_space line = takeWhile (\<lambda>c. c \<noteq> CHR '' '') line"

definition after_first_space :: "string \<Rightarrow> string" where
  "after_first_space line = tl (dropWhile (\<lambda>c. c \<noteq> CHR '' '') line)"

text \<open>The parse that the specification describes, for comparison with \<open>get_line_data\<close>:
  the line is cut at its first space only, and all the text after it is the
  comma-separated list of record types.\<close>

definition spec_first_space_split :: "string \<Rightarrow> line_data" where
  "spec_first_space_split line =
     \<lparr>domain = before_first_space line,
      records = split CHR '','' (after_first_space line)\<rparr>"

text \<open>More surroundings for the examples: a file whose second line has no space, a file
  with two record types on its line, an address parser that rejects every string, and a
  resolver at which the two nameservers agree on the A record and differ on every other
  record type.\<close>

definition no_space_fs :: filesystem where
  "no_space_fs path = Some [''example.org A'' @ nl, ''example.net'' @ nl]"

definition two_types_fs :: filesystem where
  "two_types_fs path = Some [''example.org A,MX'' @ nl]"

definition no_ip :: "string \<Rightarrow> bool" where
  "no_ip ip = False"

definition records_resolver :: resolver where
  "records_resolver n nameserver d record_type =
     (if nameserver = ''208.67.222.222'' \<or> record_type = ''A''
      then Records [''1.2.3.4''] else Records [''5.6.7.8''])"

text \<open>The message that \<open>get_line_data\<close> exits with at a line without a space.\<close>

definition malformed_line_message :: "string \<Rightarrow> string" where
  "malformed_line_message line =
     Fore_RED @ ''Something went wrong while parsing the input_file.'' @ nl @
     ''The line said: '' @ line @ nl @ ''Exiting.'' @ nl"

text \<open>The responses that \<open>dns_query\<close> is written to return, which are the responses the
  comparator is called with: \<open>[None]\<close> at a timeout (line 93), and otherwise a list of
  strings none of which is empty, the sorted texts of the rdata (line 79) or the
  placeholder of two apostrophes (lines 81 and 83).\<close>

definition query_result :: "response \<Rightarrow> bool" where
  "query_result r = (r = [None] \<or> (None \<notin> set r \<and> Some [] \<notin> set r))"

text \<open>The listing of a response that the specification describes, for comparison with
  the one in the Warning message: every entry on a line of its own, \<open>None\<close> as an empty
  line.\<close>

definition spec_render_with_empty_lines :: "response \<Rightarrow> string" where
  "spec_render_with_empty_lines r = join nl (map (\<lambda>i. case i of None \<Rightarrow> [] | Some s \<Rightarrow> s) r)"



section \<open>The comparator: the three messages\<close>

lemmas colours = Fore_RED_def Fore_GREEN_def Fore_YELLOW_def

lemma compare_warning:
  "None \<in> set p \<or> None \<in> set s \<Longrightarrow>
   compare_dns_response d rt p s =
     Inr (Fore_YELLOW @
          ''Warning! At least 1 response was None, which means we were unable to get '' @
          ''any type of response. This could have happened because of an error.'' @ nl @
          ''Please manually verify the check for: '' @ d @ '' - '' @ rt @ '' record.'' @ nl @
          ''Primary NS: '' @ join nl (truthy p) @ nl @
          ''Secondary NS: '' @ join nl (truthy s) @ nl)"
  by (simp add: compare_dns_response_def warning_format_def)

lemma compare_success:
  "None \<notin> set p \<Longrightarrow> None \<notin> set s \<Longrightarrow> p = s \<Longrightarrow>
   compare_dns_response d rt p s =
     Inr (Fore_GREEN @ ''Success! '' @ d @ '' - '' @ rt @ '' record.'' @ nl @
          ''Response:'' @ nl @ join nl (truthy p) @ nl)"
  by (simp add: compare_dns_response_def success_format_def)

lemma compare_error:
  "None \<notin> set p \<Longrightarrow> None \<notin> set s \<Longrightarrow> p \<noteq> s \<Longrightarrow>
   compare_dns_response d rt p s =
     Inr (Fore_RED @ ''Error! Difference in DNS responses for '' @ d @ '' - '' @ rt @
          '' record.'' @ nl @
          ''Primary NS: '' @ join nl (truthy p) @ nl @
          ''Secondary NS: '' @ join nl (truthy s) @ nl)"
  by (simp add: compare_dns_response_def error_format_def)

lemma outcome_of_yellow: "outcome_of (Fore_YELLOW @ m) = Some Warning"
  by (simp add: outcome_of_def colours)

lemma outcome_of_green: "outcome_of (Fore_GREEN @ m) = Some Success"
  by (simp add: outcome_of_def colours)

lemma outcome_of_red: "outcome_of (Fore_RED @ m) = Some Error"
  by (simp add: outcome_of_def colours)

lemma classify_warning: "None \<in> set p \<or> None \<in> set s \<Longrightarrow> classify d rt p s = Some Warning"
  by (simp add: classify_def compare_warning outcome_of_yellow)

lemma classify_success:
  "None \<notin> set p \<Longrightarrow> None \<notin> set s \<Longrightarrow> p = s \<Longrightarrow> classify d rt p s = Some Success"
  by (simp add: classify_def compare_success outcome_of_green)

lemma classify_error:
  "None \<notin> set p \<Longrightarrow> None \<notin> set s \<Longrightarrow> p \<noteq> s \<Longrightarrow> classify d rt p s = Some Error"
  by (simp add: classify_def compare_error outcome_of_red)

text \<open>C3. If either response contains \<open>None\<close>, the comparator's message is the Warning,
  whatever the other response holds. The test for \<open>None\<close> comes first, so two responses
  that are both \<open>[None]\<close>, although equal, give Warning and not Success.\<close>

theorem null_sentinel_is_warning:
  "(None \<in> set p \<or> None \<in> set s \<longrightarrow> classify d rt p s = Some Warning)
   \<and> classify d rt [None] [None] = Some Warning
   \<and> classify d rt [None] [None] \<noteq> Some Success"
  by (simp add: classify_warning)

theorem null_sentinel_is_warning_witness:
  "(None \<in> set [Some ''1.2.3.4''] \<or> None \<in> set [None :: string option])
   \<and> classify ''example.org'' ''A'' [Some ''1.2.3.4''] [None] = Some Warning"
  using null_sentinel_is_warning [of "[Some ''1.2.3.4'']" "[None]" "''example.org''" "''A''"]
  by simp

text \<open>C4. When neither response contains \<open>None\<close>, the outcome is Success exactly when the
  two lists are equal (same length, same order, same values) and Error otherwise. Lists
  with the same distinct elements and different multiplicities are not equal: A, A, B
  against A, B is an Error.\<close>

theorem equal_sequences_are_success:
  assumes "None \<notin> set p" and "None \<notin> set s"
  shows "(classify d rt p s = Some Success \<longleftrightarrow> p = s)
     \<and> (classify d rt p s = Some Error \<longleftrightarrow> p \<noteq> s)
     \<and> classify d rt [Some ''A'', Some ''A'', Some ''B''] [Some ''A'', Some ''B''] = Some Error"
proof (cases "p = s")
  case True
  with assms show ?thesis by (simp add: classify_success classify_error)
next
  case False
  with assms show ?thesis by (simp add: classify_success classify_error)
qed

theorem equal_sequences_are_success_witness:
  "None \<notin> set [Some ''1.2.3.4''] \<and> None \<notin> set [Some ''5.6.7.8'']
   \<and> classify ''example.org'' ''A'' [Some ''1.2.3.4''] [Some ''5.6.7.8''] = Some Error
   \<and> classify ''example.org'' ''A'' [Some ''1.2.3.4''] [Some ''1.2.3.4''] = Some Success"
  using equal_sequences_are_success
          [of "[Some ''1.2.3.4'']" "[Some ''5.6.7.8'']" "''example.org''" "''A''"]
        equal_sequences_are_success
          [of "[Some ''1.2.3.4'']" "[Some ''1.2.3.4'']" "''example.org''" "''A''"]
  by simp

section \<open>The resolver adapter: timeout and empty answers\<close>

lemma timeout_format_fails:
  "py_format timeout_format [a, b, c, e] = Inl IndexError"
  by (simp add: timeout_format_def)

lemma dns_query_timeout:
  "rsv (count_queries t) ns d rt = Timeout \<Longrightarrow>
   dns_query rsv ns d rt t = (t @ [Query ns d rt], Inl (Uncaught IndexError))"
  by (simp add: dns_query_def timeout_format_fails)

text \<open>C1. What the code does at a query that times out. The handler's format string has
  the five fields 0 to 4 and \<open>format\<close> is given four arguments, so building the warning
  raises IndexError inside the handler: nothing is printed, \<open>[None]\<close> is not returned,
  and the loop of the driver ends there with the uncaught exception, the secondary
  nameserver and the remaining record types never queried.\<close>

theorem timeout_raises_index_error:
  assumes "rsv (count_queries t) primary_ns d rt = Timeout"
  shows "dns_query rsv primary_ns d rt t =
       (t @ [Query primary_ns d rt], Inl (Uncaught IndexError))
     \<and> query_records rsv quiet primary_ns secondary_ns d (rt # rts) t =
         (t @ [Query primary_ns d rt], Inl (Uncaught IndexError))"
  using assms by (simp add: dns_query_timeout query_record_def)

theorem timeout_raises_index_error_witness:
  "timeout_resolver (count_queries []) ''208.67.222.222'' ''example.org'' ''A'' = Timeout
   \<and> dns_query timeout_resolver ''208.67.222.222'' ''example.org'' ''A'' [] =
       ([Query ''208.67.222.222'' ''example.org'' ''A''], Inl (Uncaught IndexError))"
  using timeout_raises_index_error
          [of timeout_resolver "[]" "''208.67.222.222''" "''example.org''" "''A''"]
  by (simp add: timeout_resolver_def)

text \<open>A whole run on the file \<open>example.org A\<close> with nameservers that do not respond in
  time: the first query is the last event.\<close>

lemma timeout_run:
  "main any_ip example_fs timeout_resolver ''208.67.222.222'' ''8.8.8.8'' ''domains.txt'' False =
     ([ParseIP ''208.67.222.222'', ParseIP ''8.8.8.8'', OpenFile ''domains.txt'',
       OpenFile ''domains.txt'', Query ''208.67.222.222'' ''example.org'' ''A''],
      Inl (Uncaught IndexError))"
  by code_simp

lemma dns_query_no_answer:
  "rsv (count_queries t) ns d rt = NoAnswer \<or> rsv (count_queries t) ns d rt = NoNameservers \<Longrightarrow>
   dns_query rsv ns d rt t = (t @ [Query ns d rt], Inr [Some [apostrophe, apostrophe]])"
  by (auto simp add: dns_query_def)

text \<open>C2, as stated, fails: the element returned for a query without an answer is not the
  empty string. The literal in the source is two escaped apostrophes between quotes, a
  string of two characters.\<close>

theorem no_answer_is_not_empty_string:
  "snd (dns_query no_answer_resolver ''8.8.8.8'' ''example.org'' ''MX'' []) \<noteq> Inr [Some []]
   \<and> snd (dns_query no_answer_resolver ''8.8.8.8'' ''example.org'' ''MX'' []) =
       Inr [Some [apostrophe, apostrophe]]"
  by (simp add: dns_query_def no_answer_resolver_def)

text \<open>C2, amended. When the resolver reports no answer or no usable nameservers,
  \<open>dns_query\<close> prints nothing, does not fail, and returns the list whose only element is
  the string of two apostrophes. That element is an ordinary value to the comparator: two
  such responses are a Success, and against any response without \<open>None\<close> the outcome is
  never a Warning.\<close>

theorem no_answer_placeholder:
  assumes "rsv (count_queries t) ns d rt = NoAnswer
         \<or> rsv (count_queries t) ns d rt = NoNameservers"
  shows "dns_query rsv ns d rt t = (t @ [Query ns d rt], Inr [Some [apostrophe, apostrophe]])
     \<and> classify d rt [Some [apostrophe, apostrophe]] [Some [apostrophe, apostrophe]] =
         Some Success
     \<and> (None \<notin> set s \<longrightarrow> classify d rt [Some [apostrophe, apostrophe]] s \<noteq> Some Warning)"
proof -
  have "classify d rt [Some [apostrophe, apostrophe]] s \<noteq> Some Warning" if "None \<notin> set s"
    using that classify_success [of "[Some [apostrophe, apostrophe]]" s d rt]
      classify_error [of "[Some [apostrophe, apostrophe]]" s d rt]
    by (cases "[Some [apostrophe, apostrophe]] = s") simp_all
  then show ?thesis
    using assms by (simp add: dns_query_no_answer classify_success)
qed

theorem no_answer_placeholder_witness:
  "(no_answer_resolver (count_queries []) ''8.8.8.8'' ''example.org'' ''MX'' = NoAnswer
    \<or> no_answer_resolver (count_queries []) ''8.8.8.8'' ''example.org'' ''MX'' = NoNameservers)
   \<and> dns_query no_answer_resolver ''8.8.8.8'' ''example.org'' ''MX'' [] =
       ([Query ''8.8.8.8'' ''example.org'' ''MX''], Inr [Some [apostrophe, apostrophe]])"
  using no_answer_placeholder [of no_answer_resolver "[]" "''8.8.8.8''" "''example.org''" "''MX''"]
  by (simp add: no_answer_resolver_def)

section \<open>The line parser: which text becomes which field\<close>

lemma split_not_Nil: "split c s \<noteq> []"
  by (induction s) (auto split: list.splits)

lemma split_no_separator: "c \<notin> set s \<Longrightarrow> split c s = [s]"
  by (induction s) auto

lemma split_at_first: "c \<notin> set a \<Longrightarrow> split c (a @ c # rest) = a # split c rest"
  by (induction a) auto

lemma hd_split: "hd (split c s) = takeWhile (\<lambda>x. x \<noteq> c) s"
  by (induction s) (auto split: list.splits simp: split_not_Nil)

lemma join_split: "join [c] (split c s) = s"
proof (induction s)
  case Nil
  show ?case by simp
next
  case (Cons x xs)
  obtain f fs where fs: "split c xs = f # fs"
    using split_not_Nil [of c xs] by (cases "split c xs") auto
  with Cons show ?case by (cases fs) auto
qed

lemma line_at_first_space:
  "CHR '' '' \<in> set line \<Longrightarrow>
   line = before_first_space line @ CHR '' '' # after_first_space line"
proof -
  assume a: "CHR '' '' \<in> set line"
  then have "dropWhile (\<lambda>c. c \<noteq> CHR '' '') line \<noteq> []" by simp
  moreover have "hd (dropWhile (\<lambda>c. c \<noteq> CHR '' '') line) = CHR '' ''"
    using a hd_dropWhile [of "\<lambda>c. c \<noteq> CHR '' ''" line] by simp
  ultimately have "dropWhile (\<lambda>c. c \<noteq> CHR '' '') line = CHR '' '' # after_first_space line"
    by (cases "dropWhile (\<lambda>c. c \<noteq> CHR '' '') line") (auto simp: after_first_space_def)
  then show ?thesis
    using takeWhile_dropWhile_id [of "\<lambda>c. c \<noteq> CHR '' ''" line]
    by (simp add: before_first_space_def)
qed

lemma no_space_before_first: "CHR '' '' \<notin> set (before_first_space line)"
  by (auto simp: before_first_space_def dest: set_takeWhileD)

lemma get_line_data_split:
  assumes "CHR '' '' \<notin> set d"
  shows "get_line_data (d @ CHR '' '' # rest) =
     Inr \<lparr>domain = d, records = split CHR '','' (before_first_space rest)\<rparr>"
proof -
  have l: "split CHR '' '' (d @ CHR '' '' # rest) = d # split CHR '' '' rest"
    using assms by (rule split_at_first)
  obtain f fs where fs: "split CHR '' '' rest = f # fs"
    using split_not_Nil [of "CHR '' ''" rest] by (cases "split CHR '' '' rest") auto
  have "f = before_first_space rest"
    using hd_split [of "CHR '' ''" rest] fs by (simp add: before_first_space_def)
  then show ?thesis
    by (simp add: get_line_data_def l fs)
qed

lemma get_line_data_no_space:
  assumes "CHR '' '' \<notin> set line"
  shows "get_line_data line =
     Inl (SystemExit (Fore_RED @ ''Something went wrong while parsing the input_file.'' @ nl @
            ''The line said: '' @ line @ nl @ ''Exiting.'' @ nl))"
  using assms
  by (simp add: get_line_data_def split_no_separator parse_error_format_def exit_with_def)

text \<open>C7, as stated, fails: the text after the first space does not all belong to the
  record-type field. The line \<open>example.org A MX\<close> has the record types \<open>[A]\<close>, where a cut
  at the first space alone gives \<open>[A MX]\<close>.\<close>

theorem text_after_second_space_counterexample:
  "get_line_data ''example.org A MX'' \<noteq> Inr (spec_first_space_split ''example.org A MX'')
   \<and> get_line_data ''example.org A MX'' = Inr \<lparr>domain = ''example.org'', records = [''A'']\<rparr>
   \<and> spec_first_space_split ''example.org A MX'' = \<lparr>domain = ''example.org'', records = [''A MX'']\<rparr>"
  by (simp add: get_line_data_def spec_first_space_split_def before_first_space_def
        after_first_space_def)

text \<open>C7, amended. A line that contains a space is cut at every space. The domain is the
  text before the first space; the record types are the comma-separated fields, in their
  order (joined again with commas they give the text back), of the text between the first
  space and the second, or the end of the line when there is no second space. So the text
  after the first space belongs entirely to the record-type field when it holds no further
  space.\<close>

theorem get_line_data_fields:
  assumes "CHR '' '' \<in> set line"
  shows "get_line_data line =
       Inr \<lparr>domain = before_first_space line,
            records = split CHR '','' (before_first_space (after_first_space line))\<rparr>
     \<and> join '','' (split CHR '','' (before_first_space (after_first_space line))) =
         before_first_space (after_first_space line)
     \<and> (CHR '' '' \<notin> set (after_first_space line) \<longrightarrow>
          get_line_data line = Inr (spec_first_space_split line))"
proof -
  have "get_line_data (before_first_space line @ CHR '' '' # after_first_space line) =
       Inr \<lparr>domain = before_first_space line,
            records = split CHR '','' (before_first_space (after_first_space line))\<rparr>"
    using no_space_before_first by (rule get_line_data_split)
  then have 1: "get_line_data line =
       Inr \<lparr>domain = before_first_space line,
            records = split CHR '','' (before_first_space (after_first_space line))\<rparr>"
    using line_at_first_space [OF assms] by simp
  have 2: "before_first_space r = r" if "CHR '' '' \<notin> set r" for r
    using that by (auto simp: before_first_space_def)
  show ?thesis
    using 1 2 by (simp add: join_split spec_first_space_split_def)
qed

theorem get_line_data_fields_witness:
  "CHR '' '' \<in> set ''example.org A,MX''
   \<and> get_line_data ''example.org A,MX'' =
       Inr \<lparr>domain = ''example.org'', records = [''A'', ''MX'']\<rparr>"
  using get_line_data_fields [of "''example.org A,MX''"]
  by (simp add: before_first_space_def after_first_space_def)

text \<open>C9. A line with two spaces in a row after the domain is parsed without failure: its
  only record type is the empty string. More generally, whatever follows the second space
  of a line is dropped: the record types are those of the text between the first two
  spaces.\<close>

theorem double_space_gives_empty_record_type:
  assumes "CHR '' '' \<notin> set d"
  shows "get_line_data (d @ ''  '' @ rest) = Inr \<lparr>domain = d, records = [[]]\<rparr>
     \<and> (CHR '' '' \<notin> set f \<longrightarrow>
          get_line_data (d @ '' '' @ f @ '' '' @ rest) =
            Inr \<lparr>domain = d, records = split CHR '','' f\<rparr>)"
proof -
  have "before_first_space (f @ CHR '' '' # rest) = f" if "CHR '' '' \<notin> set f"
    using that by (simp add: before_first_space_def takeWhile_append)
  then show ?thesis
    using get_line_data_split [OF assms, of "CHR '' '' # rest"]
      get_line_data_split [OF assms, of "f @ CHR '' '' # rest"]
    by (simp add: before_first_space_def)
qed

theorem double_space_gives_empty_record_type_witness:
  "CHR '' '' \<notin> set ''example.org''
   \<and> get_line_data ''example.org  A'' = Inr \<lparr>domain = ''example.org'', records = [[]]\<rparr>
   \<and> get_line_data ''example.org A,MX CNAME'' =
       Inr \<lparr>domain = ''example.org'', records = [''A'', ''MX'']\<rparr>"
  using double_space_gives_empty_record_type [of "''example.org''" "''A''" "''A,MX''"]
    double_space_gives_empty_record_type [of "''example.org''" "''CNAME''" "''A,MX''"]
  by simp

section \<open>The comparator: how the Warning lists the responses\<close>

lemma truthy_all:
  "None \<notin> set r \<Longrightarrow> Some [] \<notin> set r \<Longrightarrow>
   truthy r = map (\<lambda>i. case i of None \<Rightarrow> [] | Some s \<Rightarrow> s) r"
  by (induction r rule: truthy.induct) auto

lemma listing_of_query_result:
  "query_result r \<Longrightarrow> join nl (truthy r) = spec_render_with_empty_lines r"
  by (auto simp: query_result_def truthy_all spec_render_with_empty_lines_def)


lemma dns_query_query_result:
  assumes "dns_query rsv ns d rt t = (t1, Inr r)"
    and "\<And>rdata. rsv (count_queries t) ns d rt = Records rdata \<Longrightarrow> [] \<notin> set rdata"
  shows "query_result r"
  using assms
  by (cases "rsv (count_queries t) ns d rt")
    (auto simp: dns_query_def timeout_format_fails query_result_def)

text \<open>C8. In every Warning, that is when at least one of the two responses contains
  \<open>None\<close>, the message of the comparator lists both responses as they are, after
  \<open>Primary NS:\<close> and after \<open>Secondary NS:\<close>, every entry on a line of its own and a null
  entry as an empty line. The responses are those the comparator is called with: \<open>[None]\<close>
  or a list of non-empty strings.\<close>

theorem warning_lists_both_responses:
  assumes "None \<in> set p \<or> None \<in> set s"
    and "query_result p" and "query_result s"
  shows "compare_dns_response d rt p s =
       Inr (Fore_YELLOW @
          ''Warning! At least 1 response was None, which means we were unable to get '' @
          ''any type of response. This could have happened because of an error.'' @ nl @
          ''Please manually verify the check for: '' @ d @ '' - '' @ rt @ '' record.'' @ nl @
          ''Primary NS: '' @ spec_render_with_empty_lines p @ nl @
          ''Secondary NS: '' @ spec_render_with_empty_lines s @ nl)
     \<and> classify d rt p s = Some Warning"
  using assms
  by (simp add: compare_warning classify_warning listing_of_query_result)

theorem warning_lists_both_responses_witness:
  "(None \<in> set [None :: string option] \<or> None \<in> set [Some ''5.6.7.8'', Some ''1.2.3.4''])
   \<and> query_result [None] \<and> query_result [Some ''1.2.3.4'', Some ''5.6.7.8'']
   \<and> compare_dns_response ''example.org'' ''A'' [None] [Some ''1.2.3.4'', Some ''5.6.7.8''] =
       Inr (Fore_YELLOW @
          ''Warning! At least 1 response was None, which means we were unable to get '' @
          ''any type of response. This could have happened because of an error.'' @ nl @
          ''Please manually verify the check for: example.org - A record.'' @ nl @
          ''Primary NS: '' @ nl @
          ''Secondary NS: 1.2.3.4'' @ nl @ ''5.6.7.8'' @ nl)"
  using warning_lists_both_responses
          [of "[None]" "[Some ''1.2.3.4'', Some ''5.6.7.8'']" "''example.org''" "''A''"]
  by (simp add: query_result_def spec_render_with_empty_lines_def)

section \<open>The input validator\<close>

text \<open>C10. \<open>validate\<close> checks the primary address, then the secondary address, then the
  file, and stops at the first check that fails: the trace holds the checks made up to
  that one and no later one, and the run ends with the one message of that check. With an
  invalid primary address the secondary address is not parsed and the file is not opened,
  also in the whole program.\<close>

theorem validate_stops_at_first_failure:
  "validate ip fs primary_ns secondary_ns input_file t =
     (if \<not> ip primary_ns then
        (t @ [ParseIP primary_ns],
         Inl (SystemExit ''Invalid IP for primary nameserver (-p flag)''))
      else if \<not> ip secondary_ns then
        (t @ [ParseIP primary_ns, ParseIP secondary_ns],
         Inl (SystemExit ''Invalid IP for secondary nameserver (-s flag)''))
      else if fs input_file = None then
        (t @ [ParseIP primary_ns, ParseIP secondary_ns, OpenFile input_file],
         Inl (SystemExit ''Unable to access input file (-f flag)''))
      else (t @ [ParseIP primary_ns, ParseIP secondary_ns, OpenFile input_file], Inr True))
   \<and> (\<not> ip primary_ns \<longrightarrow>
        main ip fs rsv primary_ns secondary_ns input_file quiet =
          ([ParseIP primary_ns], Inl (SystemExit ''Invalid IP for primary nameserver (-p flag)'')))"
  by (simp add: validate_def valid_ip_def accessible_file_def main_def)

theorem validate_stops_at_first_failure_witness:
  "\<not> no_ip ''ns1'' \<and>
   validate no_ip example_fs ''ns1'' ''ns2'' ''domains.txt'' [] =
     ([ParseIP ''ns1''], Inl (SystemExit ''Invalid IP for primary nameserver (-p flag)''))
   \<and> main no_ip example_fs timeout_resolver ''ns1'' ''ns2'' ''domains.txt'' False =
     ([ParseIP ''ns1''], Inl (SystemExit ''Invalid IP for primary nameserver (-p flag)''))"
  using validate_stops_at_first_failure [of no_ip example_fs "''ns1''" "''ns2''" "''domains.txt''" "[]" timeout_resolver False]
  by (simp add: no_ip_def)

section \<open>The driver: parsing comes before querying\<close>

lemma get_line_data_with_space:
  "CHR '' '' \<in> set line \<Longrightarrow> \<exists>d. get_line_data line = Inr d"
  using get_line_data_split [OF no_space_before_first, of line "after_first_space line"]
    line_at_first_space [of line]
  by auto

lemma get_line_data_malformed:
  "CHR '' '' \<notin> set line \<Longrightarrow>
   get_line_data line = Inl (SystemExit (malformed_line_message line))"
  by (simp add: get_line_data_no_space malformed_line_message_def)

lemma parse_lines_malformed:
  assumes "\<exists>line\<in>set ls. CHR '' '' \<notin> set line"
  shows "\<exists>bad\<in>set ls. CHR '' '' \<notin> set bad
           \<and> parse_lines ls = Inl (SystemExit (malformed_line_message bad))"
  using assms
proof (induction ls)
  case Nil
  then show ?case by simp
next
  case (Cons l ls)
  show ?case
  proof (cases "CHR '' '' \<in> set l")
    case True
    with Cons.prems have "\<exists>line\<in>set ls. CHR '' '' \<notin> set line" by auto
    then obtain bad where bad: "bad \<in> set ls" "CHR '' '' \<notin> set bad"
        "parse_lines ls = Inl (SystemExit (malformed_line_message bad))"
      using Cons.IH by blast
    obtain d where "get_line_data l = Inr d"
      using get_line_data_with_space [OF True] by blast
    with bad show ?thesis by auto
  next
    case False
    then have "parse_lines (l # ls) = Inl (SystemExit (malformed_line_message l))"
      by (simp add: get_line_data_malformed)
    with False show ?thesis by auto
  qed
qed

lemma validate_trace:
  "\<exists>evs. fst (validate ip fs primary_ns secondary_ns input_file t) = t @ evs
         \<and> count_queries evs = 0 \<and> (\<forall>e\<in>set evs. \<forall>m. e \<noteq> Print m)"
  by (simp add: validate_def valid_ip_def accessible_file_def count_queries_def)

text \<open>C6. If a retained line of the file has no space, \<open>parse_data\<close> ends with the exit of
  \<open>get_line_data\<close> at such a line, and the only event it adds is the opening of the file:
  no query is sent and nothing is printed, also for the well-formed lines that come before
  the malformed one. The whole program sends no query on such a file.\<close>

theorem malformed_line_aborts_before_any_query:
  assumes "fs input_file = Some f"
    and "line \<in> set (valid_lines f)" and "CHR '' '' \<notin> set line"
  shows "(\<exists>bad\<in>set (valid_lines f). CHR '' '' \<notin> set bad \<and>
            parse_data fs rsv primary_ns secondary_ns input_file quiet t =
              (t @ [OpenFile input_file], Inl (SystemExit (malformed_line_message bad))))
     \<and> count_queries (fst (main ip fs rsv primary_ns secondary_ns input_file quiet)) = 0"
proof -
  have "\<exists>line\<in>set (valid_lines f). CHR '' '' \<notin> set line"
    using assms(2,3) by blast
  then obtain bad where bad: "bad \<in> set (valid_lines f)" "CHR '' '' \<notin> set bad"
      "parse_lines (valid_lines f) = Inl (SystemExit (malformed_line_message bad))"
    using parse_lines_malformed by blast
  have pd: "parse_data fs rsv primary_ns secondary_ns input_file quiet u =
      (u @ [OpenFile input_file], Inl (SystemExit (malformed_line_message bad)))" for u
    using assms(1) bad(3) by (simp add: parse_data_def)
  obtain evs where evs:
      "fst (validate ip fs primary_ns secondary_ns input_file []) = [] @ evs"
      "count_queries evs = 0"
    using validate_trace [of ip fs primary_ns secondary_ns input_file "[]"] by blast
  have "count_queries (fst (main ip fs rsv primary_ns secondary_ns input_file quiet)) = 0"
  proof (cases "validate ip fs primary_ns secondary_ns input_file []")
    case (Pair t1 r)
    with evs have t1: "count_queries t1 = 0" by simp
    show ?thesis
    proof (cases r)
      case (Inl e)
      with Pair t1 show ?thesis by (simp add: main_def)
    next
      case (Inr ok)
      with Pair t1 show ?thesis by (simp add: main_def pd count_queries_def)
    qed
  qed
  with bad(1,2) pd show ?thesis by blast
qed

theorem malformed_line_aborts_before_any_query_witness:
  "no_space_fs ''domains.txt'' = Some [''example.org A'' @ nl, ''example.net'' @ nl]
   \<and> ''example.net'' \<in> set (valid_lines [''example.org A'' @ nl, ''example.net'' @ nl])
   \<and> CHR '' '' \<notin> set ''example.net''
   \<and> count_queries (fst (main any_ip no_space_fs timeout_resolver ''208.67.222.222'' ''8.8.8.8''
        ''domains.txt'' False)) = 0"
  using malformed_line_aborts_before_any_query
     [where fs = no_space_fs and input_file = "''domains.txt''"
        and f = "[''example.org A'' @ nl, ''example.net'' @ nl]" and line = "''example.net''"
        and ip = any_ip and rsv = timeout_resolver and primary_ns = "''208.67.222.222''"
        and secondary_ns = "''8.8.8.8''" and quiet = False]
  by (simp add: no_space_fs_def valid_lines_def strip_def isspace_def nl_def)

text \<open>A whole run on a file whose first line is well formed and whose second line is
  not.\<close>

lemma malformed_run:
  "main any_ip no_space_fs timeout_resolver ''208.67.222.222'' ''8.8.8.8'' ''domains.txt'' False =
     ([ParseIP ''208.67.222.222'', ParseIP ''8.8.8.8'', OpenFile ''domains.txt'',
       OpenFile ''domains.txt''],
      Inl (SystemExit (malformed_line_message ''example.net'')))"
  by code_simp

section \<open>The driver: quiet mode\<close>















text \<open>A quiet run on \<open>example.org A,MX\<close> where the nameservers agree on A and differ on
  MX: four queries, and the Error alone is printed.\<close>

lemma quiet_run:
  "main any_ip two_types_fs records_resolver ''208.67.222.222'' ''8.8.8.8'' ''domains.txt'' True =
     ([ParseIP ''208.67.222.222'', ParseIP ''8.8.8.8'', OpenFile ''domains.txt'',
       OpenFile ''domains.txt'',
       Query ''208.67.222.222'' ''example.org'' ''A'', Query ''8.8.8.8'' ''example.org'' ''A'',
       Query ''208.67.222.222'' ''example.org'' ''MX'', Query ''8.8.8.8'' ''example.org'' ''MX'',
       Print (Fore_RED @ ''Error! Difference in DNS responses for example.org - MX record.'' @ nl @
          ''Primary NS: 1.2.3.4'' @ nl @ ''Secondary NS: 5.6.7.8'' @ nl)],
      Inr ())"
  by code_simp

end
